theory Spec2Isabelle
  imports Complex_Main "HOL-Library.AList"
begin

section \<open>JavaScript values\<close>

text \<open>
  The adapter of \<^verbatim>\<open>lib/database/index.js\<close> handles plain data: records, criteria
  and schema descriptions are object literals, payloads are JSON text. A number is
  \<open>NaN\<close>, an infinity or a finite value (a rational here; \<open>-0\<close> and \<open>0\<close> are one
  value, as they are for \<^verbatim>\<open>!\<close> and \<^verbatim>\<open>===\<close>). An object is the list of its own
  properties in insertion order. Strings are lists of characters. \<open>JCycle\<close> is a
  property value that refers back to the object holding it: the data that
  \<^verbatim>\<open>JSON.stringify\<close> refuses (\<^verbatim>\<open>o.self = o\<close>).
\<close>

datatype jsnum = NaN | PosInf | NegInf | Fin rat

datatype jsval =
    JUndefined
  | JNull
  | JBool bool
  | JNum jsnum
  | JStr string
  | JArr "jsval list"
  | JObj "(string \<times> jsval) list"
  | JCycle

type_synonym obj = "(string \<times> jsval) list"

text \<open>
  Property reads are reads of own properties: \<^verbatim>\<open>o[k]\<close> is \<^verbatim>\<open>undefined\<close> when \<open>o\<close>
  has no own property \<open>k\<close>. Attribute names that would reach a member of
  \<^verbatim>\<open>Object.prototype\<close> (\<^verbatim>\<open>constructor\<close>, \<^verbatim>\<open>toString\<close>, an own property called
  \<^verbatim>\<open>hasOwnProperty\<close>) are outside the model. Collection names are not restricted:
  the one table the adapter indexes with them, \<^verbatim>\<open>definedCollections\<close>, is read with
  the members it inherits (see \<open>isDefined\<close> below).
\<close>

definition obj_get :: "obj \<Rightarrow> string \<Rightarrow> jsval" where
  "obj_get ob k = (case map_of ob k of None \<Rightarrow> JUndefined | Some v \<Rightarrow> v)"

definition hasOwnProperty :: "obj \<Rightarrow> string \<Rightarrow> bool" where
  "hasOwnProperty ob k = (map_of ob k \<noteq> None)"

text \<open>\<^verbatim>\<open>delete o[k]\<close> and \<^verbatim>\<open>o[k] = v\<close> (a new property goes to the end).\<close>

definition obj_delete :: "string \<Rightarrow> obj \<Rightarrow> obj" where
  "obj_delete k ob = AList.delete k ob"

definition obj_put :: "string \<Rightarrow> jsval \<Rightarrow> obj \<Rightarrow> obj" where
  "obj_put k v ob = AList.update k v ob"

text \<open>
  \<^verbatim>\<open>_.extend(item, values)\<close> of lodash: every own property of \<open>values\<close> is assigned
  to \<open>item\<close>, in order; \<open>item\<close> is returned.
\<close>

fun extend_obj :: "obj \<Rightarrow> obj \<Rightarrow> obj" where
  "extend_obj item [] = item"
| "extend_obj item ((k, v) # values) = extend_obj (obj_put k v item) values"

text \<open>
  A property key that is \<^verbatim>\<open>undefined\<close> (the primary key of a collection the schema
  does not know) is the string \<^verbatim>\<open>"undefined"\<close>.
\<close>

definition prop_key :: "string option \<Rightarrow> string" where
  "prop_key p = (case p of None \<Rightarrow> ''undefined'' | Some k \<Rightarrow> k)"

fun isArray :: "jsval \<Rightarrow> bool" where
  "isArray (JArr xs) = True"
| "isArray v = False"

text \<open>
  \<^verbatim>\<open>a === b\<close>. \<open>NaN\<close> equals nothing. Arrays and objects are equal only when they
  are the same reference; \<open>values\<close> and \<open>criteria\<close> are taken to share no array or
  object, so two of them are never identical.
\<close>

fun strict_eq :: "jsval \<Rightarrow> jsval \<Rightarrow> bool" where
  "strict_eq JUndefined JUndefined = True"
| "strict_eq JNull JNull = True"
| "strict_eq (JBool a) (JBool b) = (a = b)"
| "strict_eq (JNum a) (JNum b) = (a \<noteq> NaN \<and> a = b)"
| "strict_eq (JStr a) (JStr b) = (a = b)"
| "strict_eq a b = False"

text \<open>
  Unary \<^verbatim>\<open>+\<close>: the conversion of a value to a number. The conversion of strings,
  arrays and objects (the runtime's text-to-number rules) is the parameter \<open>f\<close>.
\<close>

fun to_number :: "(jsval \<Rightarrow> jsnum) \<Rightarrow> jsval \<Rightarrow> jsnum" where
  "to_number f JUndefined = NaN"
| "to_number f JNull = Fin 0"
| "to_number f (JBool b) = (if b then Fin 1 else Fin 0)"
| "to_number f (JNum n) = n"
| "to_number f v = f v"

text \<open>\<^verbatim>\<open>s.toLowerCase()\<close> on the letters A to Z.\<close>

definition lower_char :: "char \<Rightarrow> char" where
  "lower_char ch =
     (case map_of (zip ''ABCDEFGHIJKLMNOPQRSTUVWXYZ'' ''abcdefghijklmnopqrstuvwxyz'') ch of
        None \<Rightarrow> ch
      | Some l \<Rightarrow> l)"

definition toLowerCase :: "string \<Rightarrow> string" where
  "toLowerCase s = map lower_char s"

section \<open>Errors and callbacks\<close>

text \<open>
  \<open>CollectionNotRegistered\<close> and \<open>PrimaryKeyUpdate\<close> are the two values taken from
  \<^verbatim>\<open>waterline-errors\<close>; \<open>JsError m\<close> is \<^verbatim>\<open>new Error(m)\<close>; \<open>StringifyThrew\<close> and
  \<open>ParseThrew\<close> are the exceptions caught around \<^verbatim>\<open>JSON.stringify\<close> and
  \<^verbatim>\<open>JSON.parse\<close>; \<open>StoreError m\<close> is an error reported by the Redis client.
  A callback invocation is a value of \<open>error + 'a\<close>: \<^verbatim>\<open>cb(err)\<close> is \<open>Inl err\<close>,
  \<^verbatim>\<open>cb(null, result)\<close> is \<open>Inr result\<close>. An operation that can invoke its callback
  more than once returns the list of its invocations, in order. An exception that
  nothing catches is \<open>TypeError\<close>.
\<close>

datatype error =
    CollectionNotRegistered
  | PrimaryKeyUpdate
  | JsError string
  | StringifyThrew
  | ParseThrew
  | StoreError string

datatype exn = TypeError

section \<open>Criteria\<close>

text \<open>
  A criteria object has at most a \<^verbatim>\<open>where\<close> clause, which is absent
  (\<^verbatim>\<open>undefined\<close>), \<^verbatim>\<open>null\<close> or a plain object of conditions.
\<close>

datatype whereclause = NoWhere | NullWhere | Where obj

record criteria =
  whereC :: whereclause

section \<open>The Redis connection\<close>

text \<open>
  The connection is the key space (key, payload, and the expiry in seconds when the
  key was written with one) and the commands issued so far. Time does not pass in the
  model: an expiry is recorded, never applied.
\<close>

datatype cmd =
    Get string
  | Set string string
  | Setex string jsnum string
  | Del string
  | Keys string

type_synonym entry = "string \<times> jsnum option"

record conn =
  kv :: "(string \<times> entry) list"
  issued :: "cmd list"

section \<open>The collaborators\<close>

text \<open>
  The model is that of \<^verbatim>\<open>lib/database/index.js\<close>. What that module calls in other
  modules, in the runtime and on the server is a parameter:
  \<^item> \<^verbatim>\<open>Utils.present\<close>, \<^verbatim>\<open>Utils.count\<close>, \<^verbatim>\<open>Utils.replaceSpaces\<close>, \<^verbatim>\<open>Utils.sanitize\<close>
    (\<^verbatim>\<open>Utils.count\<close> is taken to answer with a number for every \<^verbatim>\<open>where\<close> clause, an
    absent one included);
  \<^item> the schema (\<^verbatim>\<open>new Schema\<close>, \<^verbatim>\<open>registerCollection\<close>, \<^verbatim>\<open>retrieve\<close>,
    \<^verbatim>\<open>_primary[name]\<close>, \<^verbatim>\<open>recordKey\<close>, \<^verbatim>\<open>parse\<close>) over a schema state \<open>'s\<close>;
    \<^verbatim>\<open>retrieve\<close> gives a description or nothing, \<^verbatim>\<open>parse\<close> gives a record;
  \<^item> \<^verbatim>\<open>JSON.stringify\<close> and \<^verbatim>\<open>JSON.parse\<close> (\<open>None\<close> when they throw) and the
    runtime's conversion of non-primitive values to numbers;
  \<^item> the Redis server: which command fails, given the commands issued before it, and
    which keys a \<^verbatim>\<open>KEYS\<close> pattern matches.

  \<^verbatim>\<open>Database.prototype.sync\<close> only hands its callback to the schema and is left out.
\<close>

record 's env =
  present :: "jsval \<Rightarrow> bool"
  count :: "whereclause \<Rightarrow> nat"
  replaceSpaces :: "string \<Rightarrow> string"
  sanitize :: "string \<Rightarrow> string"
  new_Schema :: "'s"
  registerCollection :: "string \<Rightarrow> obj \<Rightarrow> 's \<Rightarrow> 's"
  retrieve :: "'s \<Rightarrow> string \<Rightarrow> obj option"
  primary :: "'s \<Rightarrow> string \<Rightarrow> string option"
  recordKey :: "'s \<Rightarrow> string \<Rightarrow> string option \<Rightarrow> jsval \<Rightarrow> string"
  parse :: "'s \<Rightarrow> string \<Rightarrow> jsval \<Rightarrow> obj"
  stringify :: "jsval \<Rightarrow> string option"
  json_parse :: "string \<Rightarrow> jsval option"
  other_number :: "jsval \<Rightarrow> jsnum"
  fault :: "cmd list \<Rightarrow> cmd \<Rightarrow> string option"
  key_match :: "string \<Rightarrow> string \<Rightarrow> bool"

text \<open>
  The five commands of the client. Each is recorded; a failing command changes
  nothing else. \<^verbatim>\<open>GET\<close> of a missing key answers \<^verbatim>\<open>null\<close> (\<open>None\<close>), \<^verbatim>\<open>SET\<close>
  stores without expiry, \<^verbatim>\<open>SETEX\<close> with one, \<^verbatim>\<open>DEL\<close> removes the key, \<^verbatim>\<open>KEYS\<close>
  lists the matching keys.
\<close>

definition conn_get :: "'s env \<Rightarrow> string \<Rightarrow> conn \<Rightarrow> (error + string option) \<times> conn" where
  "conn_get E k c =
     (let c' = c\<lparr>issued := issued c @ [Get k]\<rparr> in
      case fault E (issued c) (Get k) of
        Some m \<Rightarrow> (Inl (StoreError m), c')
      | None \<Rightarrow> (Inr (map_option fst (map_of (kv c) k)), c'))"

definition conn_set :: "'s env \<Rightarrow> string \<Rightarrow> string \<Rightarrow> conn \<Rightarrow> error option \<times> conn" where
  "conn_set E k p c =
     (let c' = c\<lparr>issued := issued c @ [Set k p]\<rparr> in
      case fault E (issued c) (Set k p) of
        Some m \<Rightarrow> (Some (StoreError m), c')
      | None \<Rightarrow> (None, c'\<lparr>kv := AList.update k (p, None) (kv c)\<rparr>))"

definition conn_setex :: "'s env \<Rightarrow> string \<Rightarrow> jsnum \<Rightarrow> string \<Rightarrow> conn \<Rightarrow> error option \<times> conn" where
  "conn_setex E k ttl p c =
     (let c' = c\<lparr>issued := issued c @ [Setex k ttl p]\<rparr> in
      case fault E (issued c) (Setex k ttl p) of
        Some m \<Rightarrow> (Some (StoreError m), c')
      | None \<Rightarrow> (None, c'\<lparr>kv := AList.update k (p, Some ttl) (kv c)\<rparr>))"

definition conn_del :: "'s env \<Rightarrow> string \<Rightarrow> conn \<Rightarrow> error option \<times> conn" where
  "conn_del E k c =
     (let c' = c\<lparr>issued := issued c @ [Del k]\<rparr> in
      case fault E (issued c) (Del k) of
        Some m \<Rightarrow> (Some (StoreError m), c')
      | None \<Rightarrow> (None, c'\<lparr>kv := AList.delete k (kv c)\<rparr>))"

definition conn_keys :: "'s env \<Rightarrow> string \<Rightarrow> conn \<Rightarrow> (error + string list) \<times> conn" where
  "conn_keys E pat c =
     (let c' = c\<lparr>issued := issued c @ [Keys pat]\<rparr> in
      case fault E (issued c) (Keys pat) of
        Some m \<Rightarrow> (Inl (StoreError m), c')
      | None \<Rightarrow> (Inr (filter (key_match E pat) (map fst (kv c))), c'))"

text \<open>
  \<^verbatim>\<open>async.each(arr, iterator, callback)\<close>: the iterator is started on every item, in
  order; the callback gets the first error, or none when every item succeeded.
\<close>

fun each :: "('a \<Rightarrow> 'st \<Rightarrow> error option \<times> 'st) \<Rightarrow> 'a list \<Rightarrow> 'st \<Rightarrow> error option \<times> 'st" where
  "each f [] s = (None, s)"
| "each f (x # xs) s =
     (case f x s of (e, s1) \<Rightarrow>
        (case each f xs s1 of (e', s2) \<Rightarrow>
           (case e of Some err \<Rightarrow> (Some err, s2) | None \<Rightarrow> (e', s2))))"

section \<open>The database\<close>

record 's database =
  connection :: conn
  definedCollections :: "string set"
  schema :: 's

text \<open>The constructor \<^verbatim>\<open>Database(connection)\<close>.\<close>

definition Database :: "'s env \<Rightarrow> conn \<Rightarrow> 's database" where
  "Database E c = \<lparr>connection = c, definedCollections = {}, schema = new_Schema E\<rparr>"

text \<open>\<^verbatim>\<open>Database.prototype.configure\<close>\<close>

definition configure :: "'s env \<Rightarrow> string \<Rightarrow> obj \<Rightarrow> 's database \<Rightarrow> 's database" where
  "configure E collectionName sch db =
     (let name = toLowerCase collectionName in
      db\<lparr>schema := registerCollection E name sch (schema db)\<rparr>)"

text \<open>
  The truth of \<^verbatim>\<open>this.definedCollections[collectionName]\<close>. The table is a plain
  object (\<^verbatim>\<open>{}\<close>): the read finds the entries that \<^verbatim>\<open>define\<close> has assigned
  (\<open>definedCollections\<close>, empty at construction) and, under their names, the members
  that every plain object inherits from \<^verbatim>\<open>Object.prototype\<close>, functions or objects
  and so all truthy. (An assignment to \<^verbatim>\<open>__proto__\<close> leaves no entry of its own; the
  read is truthy with or without it.)
\<close>

definition object_prototype_members :: "string list" where
  "object_prototype_members =
     [''constructor'', ''hasOwnProperty'', ''isPrototypeOf'', ''propertyIsEnumerable'',
      ''toLocaleString'', ''toString'', ''valueOf'', ''__defineGetter__'',
      ''__defineSetter__'', ''__lookupGetter__'', ''__lookupSetter__'', ''__proto__'']"

definition isDefined :: "'s database \<Rightarrow> string \<Rightarrow> bool" where
  "isDefined db collectionName =
     (collectionName \<in> definedCollections db \<or>
      collectionName \<in> set object_prototype_members)"

text \<open>
  \<^verbatim>\<open>Database.prototype.describe\<close>. The registry is read under the lower-cased name,
  the table of defined collections under the name as given. The result \<open>None\<close> is
  \<^verbatim>\<open>null\<close>.
\<close>

definition describe :: "'s env \<Rightarrow> string \<Rightarrow> 's database \<Rightarrow> error + obj option" where
  "describe E collectionName db =
     (let name = toLowerCase collectionName in
      case retrieve E (schema db) name of
        None \<Rightarrow> Inl CollectionNotRegistered
      | Some desc \<Rightarrow>
          (let d1 = (if length desc = 0 then None else Some desc);
               d2 = (if isDefined db collectionName then d1 else None)
           in Inr d2))"

text \<open>\<^verbatim>\<open>Database.prototype.define\<close>; its callback is always \<^verbatim>\<open>cb()\<close>.\<close>

definition define_db :: "'s env \<Rightarrow> string \<Rightarrow> obj \<Rightarrow> 's database \<Rightarrow> (error + unit) \<times> 's database" where
  "define_db E collectionName definition db =
     (let name = toLowerCase collectionName in
      (Inr (),
       db\<lparr>schema := registerCollection E name definition (schema db),
          definedCollections := insert collectionName (definedCollections db)\<rparr>))"

text \<open>
  \<^verbatim>\<open>Database.prototype._set\<close>: the write with \<^verbatim>\<open>_ttl\<close> support. \<open>data\<close> is
  serialized as it is.
\<close>

definition set_db :: "'s env \<Rightarrow> string \<Rightarrow> obj \<Rightarrow> conn \<Rightarrow> error option \<times> conn" where
  "set_db E rk data c =
     (let ttl = to_number (other_number E) (obj_get data ''_ttl'') in
      case stringify E (JObj data) of
        None \<Rightarrow> (Some StringifyThrew, c)
      | Some parsedData \<Rightarrow>
          if (ttl = NaN \<or> ttl = Fin 0) \<or> ttl = Fin (- 1)
          then conn_set E rk parsedData c
          else conn_setex E rk ttl parsedData c)"

text \<open>
  \<^verbatim>\<open>Database.prototype.drop\<close>. The final function of \<^verbatim>\<open>async.auto\<close> is
  \<^verbatim>\<open>function (err) { if (err) cb(err); cb(); }\<close>.
\<close>

definition drop_done :: "error option \<Rightarrow> (error + unit) list" where
  "drop_done err = (case err of Some e \<Rightarrow> [Inl e] | None \<Rightarrow> []) @ [Inr ()]"

definition destroyRecord :: "'s env \<Rightarrow> string \<Rightarrow> conn \<Rightarrow> error option \<times> conn" where
  "destroyRecord E item c = conn_del E item c"

definition drop_db ::
  "'s env \<Rightarrow> string \<Rightarrow> jsval \<Rightarrow> 's database \<Rightarrow> (error + unit) list \<times> 's database" where
  "drop_db E collectionName relations db =
     (let name = toLowerCase collectionName;
          prim = primary E (schema db) name;
          keyPrefix = recordKey E (schema db) name prim (JStr []);
          keyPattern = keyPrefix @ ''*''
      in case conn_keys E keyPattern (connection db) of
           (Inl err, c1) \<Rightarrow> (drop_done (Some err), db\<lparr>connection := c1\<rparr>)
         | (Inr keys, c1) \<Rightarrow>
             (case each (destroyRecord E) keys c1 of
                (err, c2) \<Rightarrow> (drop_done err, db\<lparr>connection := c2\<rparr>)))"

text \<open>
  The test that \<^verbatim>\<open>find\<close> and \<^verbatim>\<open>destroy\<close> make on the criteria,
  \<^verbatim>\<open>criteria.where && criteria.where.hasOwnProperty(primary) &&
  !Array.isArray(criteria.where[primary]) && Utils.present(criteria.where[primary]) &&
  Utils.count(criteria.where) == 1\<close>, with the value \<^verbatim>\<open>criteria.where[primary]\<close> that
  both use when it holds.
\<close>

definition primaryKeyValue :: "'s env \<Rightarrow> string option \<Rightarrow> criteria \<Rightarrow> jsval option" where
  "primaryKeyValue E prim cr =
     (case whereC cr of
        Where w \<Rightarrow>
          (let v = obj_get w (prop_key prim) in
           if hasOwnProperty w (prop_key prim) \<and> \<not> isArray v \<and> present E v \<and>
              count E (whereC cr) = 1
           then Some v else None)
      | NoWhere \<Rightarrow> None
      | NullWhere \<Rightarrow> None)"

definition find_message :: string where
  "find_message = ''Please use primary key for the criteria, eg. find(\"PRIMARY-KEY\")''"

definition destroy_message :: string where
  "destroy_message =
     ''Please use primary key for the criteria, eg. destroy(\"PRIMARY-KEY\") or destroy() to destroy all''"

text \<open>\<^verbatim>\<open>Database.prototype.find\<close>\<close>

definition find_db ::
  "'s env \<Rightarrow> string \<Rightarrow> criteria \<Rightarrow> 's database \<Rightarrow> (error + obj list) \<times> 's database" where
  "find_db E collectionName cr db =
     (let name = toLowerCase collectionName;
          prim = primary E (schema db) name
      in case primaryKeyValue E prim cr of
           Some v \<Rightarrow>
             (let rk = recordKey E (schema db) name prim v in
              case conn_get E rk (connection db) of
                (Inl err, c1) \<Rightarrow> (Inl err, db\<lparr>connection := c1\<rparr>)
              | (Inr None, c1) \<Rightarrow> (Inr [], db\<lparr>connection := c1\<rparr>)
              | (Inr (Some record), c1) \<Rightarrow>
                  if record = [] then (Inr [], db\<lparr>connection := c1\<rparr>)
                  else (case json_parse E record of
                          None \<Rightarrow> (Inl ParseThrew, db\<lparr>connection := c1\<rparr>)
                        | Some r \<Rightarrow> (Inr [parse E (schema db) name r], db\<lparr>connection := c1\<rparr>)))
         | None \<Rightarrow> (Inl (JsError find_message), db))"

text \<open>
  \<^verbatim>\<open>Database.prototype.create\<close>. The primary key is looked up under the lower-cased
  name, before the spaces of the name are replaced. \<^verbatim>\<open>JSON.parse(null)\<close> parses the
  text \<^verbatim>\<open>null\<close>.
\<close>

definition create ::
  "'s env \<Rightarrow> string \<Rightarrow> obj \<Rightarrow> 's database \<Rightarrow> (error + obj) \<times> 's database" where
  "create E collectionName data db =
     (let name0 = toLowerCase collectionName;
          prim = primary E (schema db) name0;
          name = replaceSpaces E name0;
          rk = sanitize E (recordKey E (schema db) name prim (obj_get data (prop_key prim)))
      in case set_db E rk data (connection db) of
           (Some err, c1) \<Rightarrow> (Inl err, db\<lparr>connection := c1\<rparr>)
         | (None, c1) \<Rightarrow>
             (case conn_get E rk c1 of
                (Inl err, c2) \<Rightarrow> (Inl err, db\<lparr>connection := c2\<rparr>)
              | (Inr got, c2) \<Rightarrow>
                  (case json_parse E (case got of None \<Rightarrow> ''null'' | Some p \<Rightarrow> p) of
                     None \<Rightarrow> (Inl ParseThrew, db\<lparr>connection := c2\<rparr>)
                   | Some r \<Rightarrow> (Inr (parse E (schema db) name r), db\<lparr>connection := c2\<rparr>))))"

text \<open>
  \<^verbatim>\<open>Database.prototype.update\<close>. Its first test is
  \<^verbatim>\<open>Utils.present(values[primary]) && values[primary] !== criteria.where[primary]\<close>;
  reading a property of \<^verbatim>\<open>undefined\<close> or \<^verbatim>\<open>null\<close> throws.
\<close>

definition changesPrimaryKey :: "'s env \<Rightarrow> string \<Rightarrow> criteria \<Rightarrow> obj \<Rightarrow> exn + bool" where
  "changesPrimaryKey E pk cr values =
     (if present E (obj_get values pk)
      then (case whereC cr of
              Where w \<Rightarrow> Inr (\<not> strict_eq (obj_get values pk) (obj_get w pk))
            | NoWhere \<Rightarrow> Inl TypeError
            | NullWhere \<Rightarrow> Inl TypeError)
      else Inr False)"

definition updateRecord ::
  "'s env \<Rightarrow> 's \<Rightarrow> string \<Rightarrow> string option \<Rightarrow> obj \<Rightarrow> obj \<Rightarrow> conn \<times> obj list \<Rightarrow>
   error option \<times> (conn \<times> obj list)" where
  "updateRecord E sch name prim values item st =
     (case st of (c, models) \<Rightarrow>
        (let key = recordKey E sch name prim (obj_get item (prop_key prim));
             updatedValues = extend_obj item values
         in case set_db E key updatedValues c of
              (Some err, c1) \<Rightarrow> (Some err, (c1, models))
            | (None, c1) \<Rightarrow> (None, (c1, models @ [updatedValues]))))"

text \<open>
  The result has three parts: what happened (an exception, or the one invocation of
  the callback), the caller's \<open>values\<close> object as the call leaves it, and the
  database.
\<close>

definition update ::
  "'s env \<Rightarrow> string \<Rightarrow> criteria \<Rightarrow> obj \<Rightarrow> 's database \<Rightarrow>
   (exn + (error + obj list)) \<times> obj \<times> 's database" where
  "update E collectionName cr values db =
     (let name = toLowerCase collectionName;
          prim = primary E (schema db) name
      in case changesPrimaryKey E (prop_key prim) cr values of
           Inl x \<Rightarrow> (Inl x, values, db)
         | Inr True \<Rightarrow> (Inr (Inl PrimaryKeyUpdate), values, db)
         | Inr False \<Rightarrow>
             (let values1 = obj_delete (prop_key prim) values in
              case find_db E name cr db of
                (Inl err, db1) \<Rightarrow> (Inr (Inl err), values1, db1)
              | (Inr records, db1) \<Rightarrow>
                  (case each (updateRecord E (schema db) name prim values1) records
                          (connection db1, []) of
                     (Some err, (c2, models)) \<Rightarrow>
                       (Inr (Inl err), values1, db1\<lparr>connection := c2\<rparr>)
                   | (None, (c2, models)) \<Rightarrow>
                       (Inr (Inr models), values1, db1\<lparr>connection := c2\<rparr>))))"

text \<open>
  \<^verbatim>\<open>Database.prototype.destroy\<close>. The results are \<^verbatim>\<open>[]\<close>, the fetched payload
  (a string) or, through \<^verbatim>\<open>drop\<close>, nothing (\<^verbatim>\<open>undefined\<close>).
\<close>

definition destroy ::
  "'s env \<Rightarrow> string \<Rightarrow> criteria \<Rightarrow> 's database \<Rightarrow> (error + jsval) list \<times> 's database" where
  "destroy E collectionName cr db =
     (let name = toLowerCase collectionName;
          prim = primary E (schema db) name
      in case primaryKeyValue E prim cr of
           Some v \<Rightarrow>
             (let rk = recordKey E (schema db) name prim v in
              case conn_get E rk (connection db) of
                (Inl err, c1) \<Rightarrow> ([Inl err], db\<lparr>connection := c1\<rparr>)
              | (Inr None, c1) \<Rightarrow> ([Inr (JArr [])], db\<lparr>connection := c1\<rparr>)
              | (Inr (Some record), c1) \<Rightarrow>
                  if record = [] then ([Inr (JArr [])], db\<lparr>connection := c1\<rparr>)
                  else (case conn_del E rk c1 of
                          (Some err, c2) \<Rightarrow> ([Inl err], db\<lparr>connection := c2\<rparr>)
                        | (None, c2) \<Rightarrow> ([Inr (JStr record)], db\<lparr>connection := c2\<rparr>)))
         | None \<Rightarrow>
             if count E (whereC cr) = 0
             then (case drop_db E collectionName (JStr []) db of
                     (calls, db1) \<Rightarrow> (map (map_sum id (\<lambda>u. JUndefined)) calls, db1))
             else ([Inl (JsError destroy_message)], db))"

section \<open>Auxiliary notions for the statements\<close>

text \<open>
  The criteria shape that \<^verbatim>\<open>find\<close> and \<^verbatim>\<open>destroy\<close> resolve: the \<^verbatim>\<open>where\<close> clause
  is an object with exactly one condition, on the primary-key attribute \<open>pk\<close>, whose
  value is present and not an array.
\<close>

definition single_key_condition :: "'s env \<Rightarrow> string \<Rightarrow> criteria \<Rightarrow> bool" where
  "single_key_condition E pk cr =
     (case whereC cr of
        Where w \<Rightarrow>
          hasOwnProperty w pk \<and> \<not> isArray (obj_get w pk) \<and> present E (obj_get w pk) \<and>
          count E (Where w) = 1
      | NoWhere \<Rightarrow> False
      | NullWhere \<Rightarrow> False)"

text \<open>The value compared, or used as the key: \<^verbatim>\<open>criteria.where[pk]\<close>.\<close>

definition where_value :: "criteria \<Rightarrow> string \<Rightarrow> jsval" where
  "where_value cr pk =
     (case whereC cr of Where w \<Rightarrow> obj_get w pk | NoWhere \<Rightarrow> JUndefined | NullWhere \<Rightarrow> JUndefined)"

text \<open>
  The errors of the deletions of \<open>keys\<close>, attempted one after the other on a
  connection that has issued \<open>lg\<close>.
\<close>

fun deletion_errors :: "'s env \<Rightarrow> cmd list \<Rightarrow> string list \<Rightarrow> error list" where
  "deletion_errors E lg [] = []"
| "deletion_errors E lg (k # ks) =
     (case fault E lg (Del k) of Some m \<Rightarrow> [StoreError m] | None \<Rightarrow> []) @
     deletion_errors E (lg @ [Del k]) ks"

text \<open>The test of \<^verbatim>\<open>_set\<close> for a write without expiry: \<^verbatim>\<open>!ttl || ttl === -1\<close>.\<close>

definition no_expiry :: "jsnum \<Rightarrow> bool" where
  "no_expiry ttl = (ttl = NaN \<or> ttl = Fin 0 \<or> ttl = Fin (- 1))"


text \<open>
  A process lifetime: the constructor, then calls of the public methods in some order.
  \<open>perform\<close> gives the database a call leaves behind.
\<close>

datatype call =
    Configure string obj
  | Describe string
  | Define string obj
  | Drop string jsval
  | Find string criteria
  | Create string obj
  | Update string criteria obj
  | Destroy string criteria

fun perform :: "'s env \<Rightarrow> 's database \<Rightarrow> call \<Rightarrow> 's database" where
  "perform E db (Configure n d) = configure E n d db"
| "perform E db (Describe n) = db"
| "perform E db (Define n d) = snd (define_db E n d db)"
| "perform E db (Drop n rel) = snd (drop_db E n rel db)"
| "perform E db (Find n cr) = snd (find_db E n cr db)"
| "perform E db (Create n data) = snd (create E n data db)"
| "perform E db (Update n cr vals) = snd (snd (update E n cr vals db))"
| "perform E db (Destroy n cr) = snd (destroy E n cr db)"

definition lifetime :: "'s env \<Rightarrow> conn \<Rightarrow> call list \<Rightarrow> 's database" where
  "lifetime E c calls = foldl (perform E) (Database E c) calls"

section \<open>An instance of the collaborators\<close>

text \<open>
  Modelled from the spec: \<^verbatim>\<open>lib/utils.js\<close> is not among the sources. A value is
  present when it is neither \<^verbatim>\<open>undefined\<close>, \<^verbatim>\<open>null\<close> nor the empty string; the
  count of a \<^verbatim>\<open>where\<close> clause is the number of its conditions (none when there is
  no clause); spaces of a collection name become underscores; sanitizing a key strips
  its spaces.
\<close>

definition ref_present :: "jsval \<Rightarrow> bool" where
  "ref_present v = (v \<noteq> JUndefined \<and> v \<noteq> JNull \<and> v \<noteq> JStr [])"

definition ref_count :: "whereclause \<Rightarrow> nat" where
  "ref_count wc = (case wc of Where w \<Rightarrow> length w | NoWhere \<Rightarrow> 0 | NullWhere \<Rightarrow> 0)"

definition ref_replaceSpaces :: "string \<Rightarrow> string" where
  "ref_replaceSpaces s = map (\<lambda>ch. if ch = CHR '' '' then CHR ''_'' else ch) s"

definition ref_sanitize :: "string \<Rightarrow> string" where
  "ref_sanitize s = filter (\<lambda>ch. ch \<noteq> CHR '' '') s"

text \<open>
  Modelled from the spec: \<^verbatim>\<open>lib/database/schema.js\<close> is not among the sources. The
  registry keeps, per collection name, the registered description and the designated
  primary-key attribute (the attribute declared with \<^verbatim>\<open>primaryKey: true\<close>).
  Registering is an upsert; the record key is derived from the collection name, the
  primary-key attribute and the value (the text of a string value; other values do
  not occur as keys below); parsing applies no coercion.
\<close>

record registry =
  descriptions :: "(string \<times> obj) list"
  primaries :: "(string \<times> string) list"

definition declared_primary :: "obj \<Rightarrow> string option" where
  "declared_primary d =
     map_option fst
       (List.find (\<lambda>(a, decl). case decl of JObj ps \<Rightarrow> obj_get ps ''primaryKey'' = JBool True
                                | _ \<Rightarrow> False) d)"

definition ref_registerCollection :: "string \<Rightarrow> obj \<Rightarrow> registry \<Rightarrow> registry" where
  "ref_registerCollection name d st =
     \<lparr>descriptions = AList.update name d (descriptions st),
      primaries = (case declared_primary d of
                     None \<Rightarrow> AList.delete name (primaries st)
                   | Some a \<Rightarrow> AList.update name a (primaries st))\<rparr>"

definition ref_retrieve :: "registry \<Rightarrow> string \<Rightarrow> obj option" where
  "ref_retrieve st name = map_of (descriptions st) name"

definition ref_primary :: "registry \<Rightarrow> string \<Rightarrow> string option" where
  "ref_primary st name = map_of (primaries st) name"

definition key_text :: "jsval \<Rightarrow> string" where
  "key_text v = (case v of JStr s \<Rightarrow> s | _ \<Rightarrow> [])"

definition ref_recordKey :: "registry \<Rightarrow> string \<Rightarrow> string option \<Rightarrow> jsval \<Rightarrow> string" where
  "ref_recordKey st name prim v = name @ '':'' @ prop_key prim @ '':'' @ key_text v"

definition ref_parse :: "registry \<Rightarrow> string \<Rightarrow> jsval \<Rightarrow> obj" where
  "ref_parse st name v = (case v of JObj ps \<Rightarrow> ps | _ \<Rightarrow> [])"

text \<open>
  \<^verbatim>\<open>JSON.stringify\<close> and \<^verbatim>\<open>JSON.parse\<close>, tabulated on the records used below.
  The record \<open>looped\<close> (\<^verbatim>\<open>o = {id: "loop"}; o.self = o\<close>) refers to itself:
  \<^verbatim>\<open>JSON.stringify\<close> throws on it, and it has no line in the table.
\<close>

definition ann :: obj where
  "ann = [(''id'', JStr ''u1''), (''name'', JStr ''Ann'')]"

definition annie :: obj where
  "annie = [(''id'', JStr ''u1''), (''name'', JStr ''Annie'')]"

definition spaced :: obj where
  "spaced = [(''id'', JStr ''u 1''), (''name'', JStr ''Ann'')]"

definition session :: obj where
  "session = [(''id'', JStr ''s1''), (''_ttl'', JNum (Fin 5))]"

definition looped :: obj where
  "looped = [(''id'', JStr ''loop''), (''self'', JCycle)]"

definition json_table :: "(jsval \<times> string) list" where
  "json_table =
     [(JObj ann, ''{\"id\":\"u1\",\"name\":\"Ann\"}''),
      (JObj annie, ''{\"id\":\"u1\",\"name\":\"Annie\"}''),
      (JObj spaced, ''{\"id\":\"u 1\",\"name\":\"Ann\"}''),
      (JObj session, ''{\"id\":\"s1\",\"_ttl\":5}'')]"

definition ref_stringify :: "jsval \<Rightarrow> string option" where
  "ref_stringify v = map_of json_table v"

definition ref_json_parse :: "string \<Rightarrow> jsval option" where
  "ref_json_parse p = map_of (map (\<lambda>(v, t). (t, v)) json_table) p"

text \<open>The number written by a string of decimal digits; \<open>NaN\<close> for other values.\<close>

definition is_digit :: "char \<Rightarrow> bool" where
  "is_digit ch = (48 \<le> (of_char ch :: nat) \<and> (of_char ch :: nat) \<le> 57)"

definition ref_other_number :: "jsval \<Rightarrow> jsnum" where
  "ref_other_number v =
     (case v of
        JStr s \<Rightarrow>
          if filter (\<lambda>ch. \<not> is_digit ch) s = []
          then Fin (of_nat (foldl (\<lambda>n ch. 10 * n + (of_char ch - 48)) 0 s))
          else NaN
      | _ \<Rightarrow> NaN)"

text \<open>
  A server on which no command fails, one that refuses to delete the key \<open>k\<close>, and
  one that refuses every write.
  A pattern that ends in \<^verbatim>\<open>*\<close> matches the keys that start with the rest of it.
\<close>

definition no_fault :: "cmd list \<Rightarrow> cmd \<Rightarrow> string option" where
  "no_fault lg c = None"

definition del_fault :: "string \<Rightarrow> cmd list \<Rightarrow> cmd \<Rightarrow> string option" where
  "del_fault k lg c = (if c = Del k then Some ''READONLY'' else None)"

definition read_only :: "cmd list \<Rightarrow> cmd \<Rightarrow> string option" where
  "read_only lg c = (case c of Get k \<Rightarrow> None | Keys pat \<Rightarrow> None | _ \<Rightarrow> Some ''READONLY'')"

definition ref_key_match :: "string \<Rightarrow> string \<Rightarrow> bool" where
  "ref_key_match pat k =
     (pat \<noteq> [] \<and> last pat = CHR ''*'' \<and> take (length pat - 1) k = butlast pat)"

definition ref_env :: "(cmd list \<Rightarrow> cmd \<Rightarrow> string option) \<Rightarrow> registry env" where
  "ref_env flt =
     \<lparr>present = ref_present, count = ref_count, replaceSpaces = ref_replaceSpaces,
      sanitize = ref_sanitize,
      new_Schema = \<lparr>descriptions = [], primaries = []\<rparr>,
      registerCollection = ref_registerCollection, retrieve = ref_retrieve,
      primary = ref_primary, recordKey = ref_recordKey, parse = ref_parse,
      stringify = ref_stringify, json_parse = ref_json_parse,
      other_number = ref_other_number, fault = flt, key_match = ref_key_match\<rparr>"

text \<open>
  The collection \<^verbatim>\<open>user\<close> with primary key \<^verbatim>\<open>id\<close>, registered, on a connection
  that holds the given payloads.
\<close>

definition user_schema :: obj where
  "user_schema =
     [(''id'', JObj [(''type'', JStr ''string''), (''primaryKey'', JBool True)]),
      (''name'', JObj [(''type'', JStr ''string'')])]"

definition user_db :: "(cmd list \<Rightarrow> cmd \<Rightarrow> string option) \<Rightarrow> (string \<times> entry) list \<Rightarrow> registry database" where
  "user_db flt store =
     configure (ref_env flt) ''user'' user_schema
       (Database (ref_env flt) \<lparr>kv = store, issued = []\<rparr>)"

text \<open>Two stored records of the collection \<^verbatim>\<open>user\<close>.\<close>

definition two_users :: "(string \<times> entry) list" where
  "two_users =
     [(''user:id:u1'', (''{\"id\":\"u1\",\"name\":\"Ann\"}'', None)),
      (''user:id:u2'', (''{\"id\":\"u2\"}'', None))]"

section \<open>Facts about the instance\<close>

lemmas ref_simps =
  ref_env_def ref_present_def ref_count_def ref_replaceSpaces_def ref_sanitize_def
  ref_registerCollection_def ref_retrieve_def ref_primary_def ref_recordKey_def ref_parse_def
  ref_stringify_def ref_json_parse_def ref_other_number_def no_fault_def del_fault_def
  ref_key_match_def key_text_def declared_primary_def json_table_def ann_def annie_def
  spaced_def session_def looped_def user_schema_def user_db_def Database_def
  configure_def toLowerCase_def lower_char_def prop_key_def obj_get_def hasOwnProperty_def
  Let_def

lemma lower_user [simp]: "toLowerCase ''user'' = ''user''" "toLowerCase ''User'' = ''user''"
  by (simp_all add: toLowerCase_def lower_char_def)

lemma ref_env_fields [simp]:
  "present (ref_env flt) = ref_present"
  "count (ref_env flt) = ref_count"
  "replaceSpaces (ref_env flt) = ref_replaceSpaces"
  "sanitize (ref_env flt) = ref_sanitize"
  "registerCollection (ref_env flt) = ref_registerCollection"
  "retrieve (ref_env flt) = ref_retrieve"
  "primary (ref_env flt) = ref_primary"
  "recordKey (ref_env flt) = ref_recordKey"
  "parse (ref_env flt) = ref_parse"
  "stringify (ref_env flt) = ref_stringify"
  "json_parse (ref_env flt) = ref_json_parse"
  "other_number (ref_env flt) = ref_other_number"
  "fault (ref_env flt) = flt"
  "key_match (ref_env flt) = ref_key_match"
  by (simp_all add: ref_env_def)

lemma user_db_fields [simp]:
  "connection (user_db flt st) = \<lparr>kv = st, issued = []\<rparr>"
  "definedCollections (user_db flt st) = {}"
  "ref_primary (schema (user_db flt st)) ''user'' = Some ''id''"
  "ref_retrieve (schema (user_db flt st)) ''user'' = Some user_schema"
  by (simp_all add: ref_simps)

lemma user_key [simp]: "ref_recordKey sch ''user'' (Some ''id'') (JStr s) = ''user:id:'' @ s"
  by (simp add: ref_recordKey_def prop_key_def key_text_def)

lemma ref_json [simp]:
  "ref_json_parse ''{\"id\":\"u1\",\"name\":\"Ann\"}'' = Some (JObj ann)"
  "ref_json_parse ''{\"id\":\"u1\",\"name\":\"Annie\"}'' = Some (JObj annie)"
  "ref_json_parse ''{\"id\":\"u 1\",\"name\":\"Ann\"}'' = Some (JObj spaced)"
  "ref_stringify (JObj ann) = Some ''{\"id\":\"u1\",\"name\":\"Ann\"}''"
  "ref_stringify (JObj annie) = Some ''{\"id\":\"u1\",\"name\":\"Annie\"}''"
  "ref_stringify (JObj spaced) = Some ''{\"id\":\"u 1\",\"name\":\"Ann\"}''"
  "ref_stringify (JObj session) = Some ''{\"id\":\"s1\",\"_ttl\":5}''"
  "ref_stringify (JObj looped) = None"
  by (simp_all add: ref_json_parse_def ref_stringify_def json_table_def ann_def annie_def
        spaced_def session_def looped_def)

lemma ref_parse_obj [simp]: "ref_parse sch name (JObj ps) = ps"
  by (simp add: ref_parse_def)

lemma no_fault_None [simp]: "no_fault lg c = None"
  by (simp add: no_fault_def)

lemma two_users_lookup [simp]:
  "map_of two_users ''user:id:u1'' = Some (''{\"id\":\"u1\",\"name\":\"Ann\"}'', None)"
  "map_of two_users ''user:id:u9'' = None"
  by (simp_all add: two_users_def)

section \<open>The write with expiry\<close>

lemma to_number_absent:
  "map_of data ''_ttl'' = None \<Longrightarrow> to_number f (obj_get data ''_ttl'') = NaN"
  by (simp add: obj_get_def)

text \<open>
  C6. \<^verbatim>\<open>_set(key, data)\<close> performs a plain \<^verbatim>\<open>SET\<close> exactly when the \<^verbatim>\<open>_ttl\<close>
  attribute of \<open>data\<close>, converted to a number, is \<open>NaN\<close> (as it is when the attribute
  is absent), zero or \<open>-1\<close>, and a \<^verbatim>\<open>SETEX\<close> with that number of seconds in every other
  case. The payload is the serialization of \<open>data\<close> as given, \<^verbatim>\<open>_ttl\<close> included. The
  call does what that one command does: it fails exactly when the server refuses the
  command, with the server's error and the store as it was, and otherwise succeeds and
  leaves the payload under the key, without or with the expiry. When \<open>data\<close> cannot be
  serialized the callback gets the exception and the connection is untouched: no
  command is issued.
\<close>

theorem set_db_ttl:
  "let ttl = to_number (other_number E) (obj_get data ''_ttl'');
       r = set_db E rk data c
   in (stringify E (JObj data) = None \<longrightarrow> r = (Some StringifyThrew, c)) \<and>
      (\<forall>p. stringify E (JObj data) = Some p \<longrightarrow>
         (let cmd = (if no_expiry ttl then Set rk p else Setex rk ttl p);
              c1 = c\<lparr>issued := issued c @ [cmd]\<rparr>
          in r = (if no_expiry ttl then conn_set E rk p c else conn_setex E rk ttl p c) \<and>
             r = (case fault E (issued c) cmd of
                    Some m \<Rightarrow> (Some (StoreError m), c1)
                  | None \<Rightarrow>
                      (None,
                       c1\<lparr>kv := AList.update rk (p, if no_expiry ttl then None else Some ttl)
                                  (kv c)\<rparr>)) \<and>
             fst r = map_option StoreError (fault E (issued c) cmd) \<and>
             issued (snd r) = issued c @ [cmd] \<and>
             (fst r \<noteq> None \<longrightarrow> kv (snd r) = kv c) \<and>
             (fst r = None \<longrightarrow>
                map_of (kv (snd r)) rk =
                  Some (p, if no_expiry ttl then None else Some ttl)))) \<and>
      (\<not> hasOwnProperty data ''_ttl'' \<longrightarrow> no_expiry ttl)"
proof -
  let ?ttl = "to_number (other_number E) (obj_get data ''_ttl'')"
  let ?r = "set_db E rk data c"
  have none: "stringify E (JObj data) = None \<longrightarrow> ?r = (Some StringifyThrew, c)"
    by (simp add: set_db_def)
  have absent: "\<not> hasOwnProperty data ''_ttl'' \<longrightarrow> no_expiry ?ttl"
    by (simp add: hasOwnProperty_def no_expiry_def to_number_absent)
  have some: "\<forall>p. stringify E (JObj data) = Some p \<longrightarrow>
         (let cmd = (if no_expiry ?ttl then Set rk p else Setex rk ?ttl p);
              c1 = c\<lparr>issued := issued c @ [cmd]\<rparr>
          in ?r = (if no_expiry ?ttl then conn_set E rk p c else conn_setex E rk ?ttl p c) \<and>
             ?r = (case fault E (issued c) cmd of
                    Some m \<Rightarrow> (Some (StoreError m), c1)
                  | None \<Rightarrow>
                      (None,
                       c1\<lparr>kv := AList.update rk (p, if no_expiry ?ttl then None else Some ?ttl)
                                  (kv c)\<rparr>)) \<and>
             fst ?r = map_option StoreError (fault E (issued c) cmd) \<and>
             issued (snd ?r) = issued c @ [cmd] \<and>
             (fst ?r \<noteq> None \<longrightarrow> kv (snd ?r) = kv c) \<and>
             (fst ?r = None \<longrightarrow>
                map_of (kv (snd ?r)) rk =
                  Some (p, if no_expiry ?ttl then None else Some ?ttl)))"
  proof (intro allI impI)
    fix p assume p: "stringify E (JObj data) = Some p"
    let ?cmd = "if no_expiry ?ttl then Set rk p else Setex rk ?ttl p"
    let ?c1 = "c\<lparr>issued := issued c @ [?cmd]\<rparr>"
    let ?entry = "(p, if no_expiry ?ttl then None else Some ?ttl)"
    have branch: "?r = (if no_expiry ?ttl then conn_set E rk p c else conn_setex E rk ?ttl p c)"
      using p by (simp add: set_db_def no_expiry_def Let_def)
    have eq: "?r = (case fault E (issued c) ?cmd of
                      Some m \<Rightarrow> (Some (StoreError m), ?c1)
                    | None \<Rightarrow> (None, ?c1\<lparr>kv := AList.update rk ?entry (kv c)\<rparr>))"
      unfolding branch
      by (cases "no_expiry ?ttl")
         (simp_all add: conn_set_def conn_setex_def Let_def split: option.splits)
    have res: "fst ?r = map_option StoreError (fault E (issued c) ?cmd)"
      and log: "issued (snd ?r) = issued c @ [?cmd]"
      and keep: "fst ?r \<noteq> None \<longrightarrow> kv (snd ?r) = kv c"
      and put: "fst ?r = None \<longrightarrow> map_of (kv (snd ?r)) rk = Some ?entry"
      unfolding eq by (simp_all add: update_conv' split: option.splits)
    from branch eq res log keep put
    show "let cmd = ?cmd; c1 = c\<lparr>issued := issued c @ [cmd]\<rparr>
          in ?r = (if no_expiry ?ttl then conn_set E rk p c else conn_setex E rk ?ttl p c) \<and>
             ?r = (case fault E (issued c) cmd of
                    Some m \<Rightarrow> (Some (StoreError m), c1)
                  | None \<Rightarrow> (None, c1\<lparr>kv := AList.update rk ?entry (kv c)\<rparr>)) \<and>
             fst ?r = map_option StoreError (fault E (issued c) cmd) \<and>
             issued (snd ?r) = issued c @ [cmd] \<and>
             (fst ?r \<noteq> None \<longrightarrow> kv (snd ?r) = kv c) \<and>
             (fst ?r = None \<longrightarrow> map_of (kv (snd ?r)) rk = Some ?entry)"
      unfolding Let_def by blast
  qed
  from none some absent show ?thesis unfolding Let_def by blast
qed

theorem set_db_ttl_witness:
  "set_db (ref_env no_fault) ''user:id:s1'' session \<lparr>kv = [], issued = []\<rparr> =
     (None,
      \<lparr>kv = [(''user:id:s1'', (''{\"id\":\"s1\",\"_ttl\":5}'', Some (Fin 5)))],
       issued = [Setex ''user:id:s1'' (Fin 5) ''{\"id\":\"s1\",\"_ttl\":5}'']\<rparr>) \<and>
   set_db (ref_env no_fault) ''user:id:u1'' ann \<lparr>kv = [], issued = []\<rparr> =
     (None,
      \<lparr>kv = [(''user:id:u1'', (''{\"id\":\"u1\",\"name\":\"Ann\"}'', None))],
       issued = [Set ''user:id:u1'' ''{\"id\":\"u1\",\"name\":\"Ann\"}'']\<rparr>) \<and>
   set_db (ref_env read_only) ''user:id:s1'' session \<lparr>kv = [], issued = []\<rparr> =
     (Some (StoreError ''READONLY''),
      \<lparr>kv = [], issued = [Setex ''user:id:s1'' (Fin 5) ''{\"id\":\"s1\",\"_ttl\":5}'']\<rparr>) \<and>
   set_db (ref_env no_fault) ''user:id:loop'' looped \<lparr>kv = [], issued = []\<rparr> =
     (Some StringifyThrew, \<lparr>kv = [], issued = []\<rparr>)"
proof -
  let ?c = "\<lparr>kv = [], issued = []\<rparr>"
  have t1: "to_number ref_other_number (obj_get session ''_ttl'') = Fin 5"
    and t2: "to_number ref_other_number (obj_get ann ''_ttl'') = NaN"
    by (simp_all add: session_def ann_def obj_get_def)
  have n: "\<not> no_expiry (Fin 5)" "no_expiry NaN"
    by (simp_all add: no_expiry_def)
  have ro: "read_only [] (Setex ''user:id:s1'' (Fin 5) ''{\"id\":\"s1\",\"_ttl\":5}'') = Some ''READONLY''"
    by (simp add: read_only_def)
  have 1: "set_db (ref_env no_fault) ''user:id:s1'' session ?c =
     (None,
      \<lparr>kv = [(''user:id:s1'', (''{\"id\":\"s1\",\"_ttl\":5}'', Some (Fin 5)))],
       issued = [Setex ''user:id:s1'' (Fin 5) ''{\"id\":\"s1\",\"_ttl\":5}'']\<rparr>)"
    using set_db_ttl [where E = "ref_env no_fault" and data = session and rk = "''user:id:s1''"
            and c = ?c]
    by (auto simp: Let_def t1 n)
  have 2: "set_db (ref_env no_fault) ''user:id:u1'' ann ?c =
     (None,
      \<lparr>kv = [(''user:id:u1'', (''{\"id\":\"u1\",\"name\":\"Ann\"}'', None))],
       issued = [Set ''user:id:u1'' ''{\"id\":\"u1\",\"name\":\"Ann\"}'']\<rparr>)"
    using set_db_ttl [where E = "ref_env no_fault" and data = ann and rk = "''user:id:u1''"
            and c = ?c]
    by (auto simp: Let_def t2 n)
  have 3: "set_db (ref_env read_only) ''user:id:s1'' session ?c =
     (Some (StoreError ''READONLY''),
      \<lparr>kv = [], issued = [Setex ''user:id:s1'' (Fin 5) ''{\"id\":\"s1\",\"_ttl\":5}'']\<rparr>)"
    using set_db_ttl [where E = "ref_env read_only" and data = session and rk = "''user:id:s1''"
            and c = ?c]
    by (auto simp: Let_def t1 n ro)
  have 4: "set_db (ref_env no_fault) ''user:id:loop'' looped ?c = (Some StringifyThrew, ?c)"
    using set_db_ttl [where E = "ref_env no_fault" and data = looped and rk = "''user:id:loop''"
            and c = ?c]
    by (simp add: Let_def)
  from 1 2 3 4 show ?thesis by simp
qed

section \<open>Dropping a collection\<close>

text \<open>
  Every deletion is attempted, and the error handed on is the first one that
  occurred.
\<close>

lemma each_destroyRecord:
  "each (destroyRecord E) ks c = (e, c') \<Longrightarrow>
   issued c' = issued c @ map Del ks \<and>
   e = (case deletion_errors E (issued c) ks of [] \<Rightarrow> None | x # xs \<Rightarrow> Some x)"
proof (induction ks arbitrary: c e c')
  case Nil
  then show ?case by simp
next
  case (Cons k ks)
  obtain e1 c1 where f: "destroyRecord E k c = (e1, c1)"
    by (cases "destroyRecord E k c")
  obtain e2 c2 where r: "each (destroyRecord E) ks c1 = (e2, c2)"
    by (cases "each (destroyRecord E) ks c1")
  have c1: "issued c1 = issued c @ [Del k]"
    and e1: "e1 = map_option StoreError (fault E (issued c) (Del k))"
    using f by (auto simp: destroyRecord_def conn_del_def Let_def split: option.splits)
  from Cons.IH [OF r] c1 have ih: "issued c2 = issued c @ Del k # map Del ks"
    "e2 = (case deletion_errors E (issued c @ [Del k]) ks of [] \<Rightarrow> None | x # xs \<Rightarrow> Some x)"
    by simp_all
  from Cons.prems f r have res: "c' = c2" "e = (case e1 of Some err \<Rightarrow> Some err | None \<Rightarrow> e2)"
    by (auto split: option.splits)
  show ?case using res ih e1 by (auto split: option.splits)
qed

lemma drop_db_calls_back_once:
  assumes keys: "conn_keys E
       (recordKey E (schema db) (toLowerCase cn) (primary E (schema db) (toLowerCase cn)) (JStr [])
          @ ''*'') (connection db) = (Inr keys, c1)"
    and fine: "deletion_errors E (issued c1) keys = []"
  shows "fst (drop_db E cn rel db) = [Inr ()]"
proof -
  obtain r c2 where eq: "each (destroyRecord E) keys c1 = (r, c2)"
    by (cases "each (destroyRecord E) keys c1")
  from each_destroyRecord [OF eq] fine have "r = None" by simp
  then show ?thesis using keys eq by (simp add: drop_db_def Let_def drop_done_def)
qed

text \<open>
  C2. When the scan of \<^verbatim>\<open>drop(collectionName, relations)\<close> has answered with the keys
  and a deletion fails, the completion callback is invoked twice: first with the error
  (that of the first deletion that failed), then again with no argument. All the
  deletions have been attempted.
\<close>

theorem drop_db_calls_back_twice:
  assumes keys: "conn_keys E
       (recordKey E (schema db) (toLowerCase cn) (primary E (schema db) (toLowerCase cn)) (JStr [])
          @ ''*'') (connection db) = (Inr keys, c1)"
    and failed: "deletion_errors E (issued c1) keys = e # es"
  shows "fst (drop_db E cn rel db) = [Inl e, Inr ()] \<and>
         issued (connection (snd (drop_db E cn rel db))) = issued c1 @ map Del keys"
proof -
  obtain r c2 where eq: "each (destroyRecord E) keys c1 = (r, c2)"
    by (cases "each (destroyRecord E) keys c1")
  from each_destroyRecord [OF eq] failed
  have "r = Some e" "issued c2 = issued c1 @ map Del keys"
    by simp_all
  then show ?thesis using keys eq by (simp add: drop_db_def Let_def drop_done_def)
qed

theorem drop_db_calls_back_twice_witness:
  "fst (drop_db (ref_env (del_fault ''user:id:u1'')) ''User'' JNull
          (user_db (del_fault ''user:id:u1'') two_users)) =
     [Inl (StoreError ''READONLY''), Inr ()] \<and>
   issued (connection (snd (drop_db (ref_env (del_fault ''user:id:u1'')) ''User'' JNull
          (user_db (del_fault ''user:id:u1'') two_users)))) =
     [Keys ''user:id:*'', Del ''user:id:u1'', Del ''user:id:u2'']"
proof -
  let ?E = "ref_env (del_fault ''user:id:u1'')"
  let ?db = "user_db (del_fault ''user:id:u1'') two_users"
  have k: "conn_keys ?E
       (recordKey ?E (schema ?db) (toLowerCase ''User'')
          (primary ?E (schema ?db) (toLowerCase ''User'')) (JStr []) @ ''*'')
       (connection ?db) =
     (Inr [''user:id:u1'', ''user:id:u2''], \<lparr>kv = two_users, issued = [Keys ''user:id:*'']\<rparr>)"
    by (simp add: ref_simps conn_keys_def two_users_def Let_def)
  have d: "deletion_errors ?E (issued \<lparr>kv = two_users, issued = [Keys ''user:id:*'']\<rparr>)
             [''user:id:u1'', ''user:id:u2''] = StoreError ''READONLY'' # []"
    by (simp add: ref_env_def del_fault_def)
  show ?thesis using drop_db_calls_back_twice [OF k d, of JNull] by simp
qed

section \<open>Finding by primary key\<close>

lemma primaryKeyValue_eq:
  "primaryKeyValue E prim cr =
     (if single_key_condition E (prop_key prim) cr then Some (where_value cr (prop_key prim)) else None)"
  by (simp add: primaryKeyValue_def single_key_condition_def where_value_def Let_def
           split: whereclause.splits)

lemma conn_get_eq:
  "conn_get E k c =
     ((case fault E (issued c) (Get k) of
         Some m \<Rightarrow> Inl (StoreError m)
       | None \<Rightarrow> Inr (map_option fst (map_of (kv c) k))),
      c\<lparr>issued := issued c @ [Get k]\<rparr>)"
  by (simp add: conn_get_def Let_def split: option.splits)



section \<open>Destroying records\<close>

lemma conn_del_eq:
  "conn_del E k c =
     (case fault E (issued c) (Del k) of
        Some m \<Rightarrow> (Some (StoreError m), c\<lparr>issued := issued c @ [Del k]\<rparr>)
      | None \<Rightarrow> (None, \<lparr>kv = AList.delete k (kv c), issued = issued c @ [Del k]\<rparr>))"
  by (simp add: conn_del_def Let_def split: option.splits)





section \<open>Updating records\<close>

lemma lower_char_idem: "lower_char (lower_char ch) = lower_char ch"
  by (simp add: lower_char_def)

lemma toLowerCase_idem [simp]: "toLowerCase (toLowerCase s) = toLowerCase s"
  by (simp add: toLowerCase_def lower_char_idem)

lemma find_db_lower: "find_db E (toLowerCase cn) cr db = find_db E cn cr db"
  by (simp add: find_db_def)

lemma find_db_error: "fst (find_db E cn cr db) \<noteq> Inl PrimaryKeyUpdate"
  by (simp add: find_db_def Let_def conn_get_eq split: option.splits)


lemma find_db_schema: "schema (snd (find_db E cn cr db)) = schema db"
  by (simp add: find_db_def Let_def conn_get_eq split: option.splits)

lemma set_db_error: "fst (set_db E k d c) \<noteq> Some PrimaryKeyUpdate"
  by (simp add: set_db_def conn_set_def conn_setex_def Let_def split: option.splits)





lemma obj_delete_hasOwnProperty: "\<not> hasOwnProperty (obj_delete k vs) k"
  by (simp add: hasOwnProperty_def obj_delete_def delete_conv')


lemma each_updateRecord:
  "each (updateRecord E sch name prim vs) records (c, ms) = (e, (c', ms')) \<Longrightarrow>
   e \<noteq> Some PrimaryKeyUpdate \<and>
   (e = None \<longrightarrow> ms' = ms @ map (\<lambda>item. extend_obj item vs) records)"
proof (induction records arbitrary: c ms e c' ms')
  case Nil
  then show ?case by simp
next
  case (Cons item records)
  obtain e1 c1 ms1 where f: "updateRecord E sch name prim vs item (c, ms) = (e1, (c1, ms1))"
    by (metis surj_pair)
  obtain e2 c2 ms2 where r: "each (updateRecord E sch name prim vs) records (c1, ms1) = (e2, (c2, ms2))"
    by (metis surj_pair)
  have e1: "e1 \<noteq> Some PrimaryKeyUpdate" and m1: "e1 = None \<longrightarrow> ms1 = ms @ [extend_obj item vs]"
    using f set_db_error [of E "recordKey E sch name prim (obj_get item (prop_key prim))"
                              "extend_obj item vs" c]
    by (auto simp: updateRecord_def Let_def split: prod.splits option.splits)
  from Cons.prems f r
  have res: "e = (case e1 of Some err \<Rightarrow> Some err | None \<Rightarrow> e2)" "ms' = ms2"
    by (auto split: option.splits)
  from Cons.IH [OF r] res e1 m1 show ?case
    by (auto split: option.splits)
qed





lemma update_result:
  assumes g: "changesPrimaryKey E (prop_key (primary E (schema db) (toLowerCase cn))) cr vals
                = Inr False"
    and f: "find_db E cn cr db = (fr, db1)"
  shows "update E cn cr vals db =
     (case fr of
        Inl err \<Rightarrow> (Inr (Inl err), obj_delete (prop_key (primary E (schema db) (toLowerCase cn))) vals, db1)
      | Inr records \<Rightarrow>
          (case each (updateRecord E (schema db) (toLowerCase cn) (primary E (schema db) (toLowerCase cn))
                        (obj_delete (prop_key (primary E (schema db) (toLowerCase cn))) vals))
                  records (connection db1, []) of
             (Some err, (c2, models)) \<Rightarrow>
               (Inr (Inl err), obj_delete (prop_key (primary E (schema db) (toLowerCase cn))) vals,
                db1\<lparr>connection := c2\<rparr>)
           | (None, (c2, models)) \<Rightarrow>
               (Inr (Inr models), obj_delete (prop_key (primary E (schema db) (toLowerCase cn))) vals,
                db1\<lparr>connection := c2\<rparr>)))"
  using g f by (simp add: update_def Let_def find_db_lower split: sum.splits)






lemma update_rejected_keeps_values:
  "fst (update E cn cr vals db) = Inr (Inl PrimaryKeyUpdate) \<or>
   fst (update E cn cr vals db) = Inl TypeError \<Longrightarrow>
   snd (update E cn cr vals db) = (vals, db)"
  using find_db_error [of E cn cr db]
  by (cases "find_db E cn cr db")
     (auto simp: update_def Let_def find_db_lower
        split: sum.splits bool.splits prod.splits option.splits
        dest: each_updateRecord)

text \<open>
  C9. When the first test of \<^verbatim>\<open>update\<close> lets the call pass (the primary-key
  attribute of \<open>values\<close> is not present, or it is \<^verbatim>\<open>===\<close> the one of the
  \<^verbatim>\<open>where\<close> clause), the caller's \<open>values\<close> object leaves the call without its
  primary-key attribute, whatever the update then does. In particular, when \<^verbatim>\<open>find\<close>
  rejects the criteria the callback gets that error, the database is untouched, and
  \<open>values\<close> has lost the attribute all the same.
\<close>

theorem update_deletes_primary_key_from_values:
  assumes "\<not> present E (obj_get vals (prop_key (primary E (schema db) (toLowerCase cn)))) \<or>
           (\<exists>w. whereC cr = Where w \<and>
              strict_eq (obj_get vals (prop_key (primary E (schema db) (toLowerCase cn))))
                        (obj_get w (prop_key (primary E (schema db) (toLowerCase cn)))))"
  shows "let pk = prop_key (primary E (schema db) (toLowerCase cn));
             r = update E cn cr vals db
         in fst (snd r) = obj_delete pk vals \<and>
            \<not> hasOwnProperty (fst (snd r)) pk \<and>
            (\<not> single_key_condition E pk cr \<longrightarrow>
               r = (Inr (Inl (JsError find_message)), obj_delete pk vals, db))"
proof -
  let ?pk = "prop_key (primary E (schema db) (toLowerCase cn))"
  from assms have g: "changesPrimaryKey E ?pk cr vals = Inr False"
    by (auto simp: changesPrimaryKey_def split: whereclause.splits)
  obtain fr db1 where f: "find_db E cn cr db = (fr, db1)" by (cases "find_db E cn cr db")
  have 1: "fst (snd (update E cn cr vals db)) = obj_delete ?pk vals"
    using update_result [OF g f] by (auto split: sum.splits prod.splits option.splits)
  have 2: "\<not> single_key_condition E ?pk cr \<longrightarrow>
             update E cn cr vals db = (Inr (Inl (JsError find_message)), obj_delete ?pk vals, db)"
  proof
    assume "\<not> single_key_condition E ?pk cr"
    then have "find_db E cn cr db = (Inl (JsError find_message), db)"
      by (simp add: find_db_def Let_def primaryKeyValue_eq)
    from update_result [OF g this]
    show "update E cn cr vals db = (Inr (Inl (JsError find_message)), obj_delete ?pk vals, db)"
      by simp
  qed
  from 1 2 show ?thesis by (simp add: Let_def obj_delete_hasOwnProperty)
qed

theorem update_deletes_primary_key_from_values_witness:
  "update (ref_env no_fault) ''user''
      \<lparr>whereC = Where [(''id'', JStr ''u1''), (''name'', JStr ''Ann'')]\<rparr> annie
      (user_db no_fault two_users) =
     (Inr (Inl (JsError find_message)), [(''name'', JStr ''Annie'')], user_db no_fault two_users) \<and>
   hasOwnProperty annie ''id''"
proof -
  let ?E = "ref_env no_fault"
  let ?db = "user_db no_fault two_users"
  let ?cr = "\<lparr>whereC = Where [(''id'', JStr ''u1''), (''name'', JStr ''Ann'')]\<rparr>"
  have g: "\<not> present ?E (obj_get annie (prop_key (primary ?E (schema ?db) (toLowerCase ''user'')))) \<or>
           (\<exists>w. whereC ?cr = Where w \<and>
              strict_eq (obj_get annie (prop_key (primary ?E (schema ?db) (toLowerCase ''user''))))
                        (obj_get w (prop_key (primary ?E (schema ?db) (toLowerCase ''user'')))))"
    by (simp add: prop_key_def obj_get_def annie_def)
  have s: "\<not> single_key_condition ?E ''id'' ?cr"
    by (simp add: single_key_condition_def ref_count_def)
  have d: "obj_delete ''id'' annie = [(''name'', JStr ''Annie'')]" "hasOwnProperty annie ''id''"
    by (simp_all add: obj_delete_def annie_def hasOwnProperty_def)
  from update_deletes_primary_key_from_values [OF g] s d show ?thesis
    by (simp add: Let_def prop_key_def)
qed

text \<open>
  C10. When \<open>values\<close> has a present primary-key attribute and the criteria has no
  \<^verbatim>\<open>where\<close> clause, \<^verbatim>\<open>update\<close> throws (reading a property of \<^verbatim>\<open>undefined\<close>):
  the callback is not invoked, \<open>values\<close> and the database are untouched. \<^verbatim>\<open>find\<close> on
  the same criteria reports its error through the callback.
\<close>

theorem update_throws_without_where:
  assumes "present E (obj_get vals (prop_key (primary E (schema db) (toLowerCase cn))))"
    and "whereC cr = NoWhere"
  shows "update E cn cr vals db = (Inl TypeError, vals, db) \<and>
         find_db E cn cr db = (Inl (JsError find_message), db)"
  using assms
  by (simp add: update_def changesPrimaryKey_def find_db_def primaryKeyValue_def Let_def)

theorem update_throws_without_where_witness:
  "update (ref_env no_fault) ''user'' \<lparr>whereC = NoWhere\<rparr> annie (user_db no_fault two_users) =
     (Inl TypeError, annie, user_db no_fault two_users) \<and>
   find_db (ref_env no_fault) ''user'' \<lparr>whereC = NoWhere\<rparr> (user_db no_fault two_users) =
     (Inl (JsError find_message), user_db no_fault two_users)"
proof -
  let ?E = "ref_env no_fault"
  let ?db = "user_db no_fault two_users"
  have p: "present ?E (obj_get annie (prop_key (primary ?E (schema ?db) (toLowerCase ''user''))))"
    by (simp add: prop_key_def obj_get_def annie_def ref_present_def)
  have w: "whereC \<lparr>whereC = NoWhere\<rparr> = NoWhere" by simp
  from update_throws_without_where [OF p w] show ?thesis .
qed

section \<open>Describing and defining collections\<close>

lemma drop_db_frame:
  "definedCollections (snd (drop_db E n rel db)) = definedCollections db"
  "schema (snd (drop_db E n rel db)) = schema db"
  by (simp_all add: drop_db_def Let_def split: prod.splits sum.splits)

lemma find_db_frame:
  "definedCollections (snd (find_db E n cr db)) = definedCollections db"
  by (simp add: find_db_def Let_def conn_get_eq split: option.splits)

lemma create_frame:
  "definedCollections (snd (create E n data db)) = definedCollections db"
  "schema (snd (create E n data db)) = schema db"
proof -
  let ?k = "sanitize E (recordKey E (schema db) (replaceSpaces E (toLowerCase n))
              (primary E (schema db) (toLowerCase n))
              (obj_get data (prop_key (primary E (schema db) (toLowerCase n)))))"
  obtain e c1 where s: "set_db E ?k data (connection db) = (e, c1)"
    by (cases "set_db E ?k data (connection db)")
  from s show "definedCollections (snd (create E n data db)) = definedCollections db"
    "schema (snd (create E n data db)) = schema db"
    by (cases e; simp add: create_def Let_def conn_get_eq split: option.splits)+
qed

lemma destroy_frame:
  "definedCollections (snd (destroy E n cr db)) = definedCollections db"
  "schema (snd (destroy E n cr db)) = schema db"
proof -
  obtain calls db1 where d: "drop_db E n (JStr []) db = (calls, db1)"
    by (cases "drop_db E n (JStr []) db")
  with drop_db_frame [of E n "JStr []" db]
  have db1: "definedCollections db1 = definedCollections db" "schema db1 = schema db"
    by simp_all
  from d db1 show "definedCollections (snd (destroy E n cr db)) = definedCollections db"
    "schema (snd (destroy E n cr db)) = schema db"
    by (simp_all add: destroy_def Let_def conn_get_eq conn_del_eq split: option.splits)
qed

lemma update_frame:
  "definedCollections (snd (snd (update E n cr vals db))) = definedCollections db"
  "schema (snd (snd (update E n cr vals db))) = schema db"
proof -
  let ?pk = "prop_key (primary E (schema db) (toLowerCase n))"
  obtain fr db1 where f: "find_db E n cr db = (fr, db1)" by (cases "find_db E n cr db")
  from f find_db_frame [of E n cr db] find_db_schema [of E n cr db]
  have db1: "definedCollections db1 = definedCollections db" "schema db1 = schema db"
    by simp_all
  have "definedCollections (snd (snd (update E n cr vals db))) = definedCollections db \<and>
        schema (snd (snd (update E n cr vals db))) = schema db"
  proof (cases "changesPrimaryKey E ?pk cr vals")
    case (Inl x)
    then show ?thesis by (simp add: update_def Let_def)
  next
    case (Inr b)
    show ?thesis
    proof (cases b)
      case True
      with Inr show ?thesis by (simp add: update_def Let_def)
    next
      case False
      with Inr have g: "changesPrimaryKey E ?pk cr vals = Inr False" by simp
      show ?thesis
        using update_result [OF g f] db1
        by (cases fr) (simp_all split: prod.splits option.splits)
    qed
  qed
  then show "definedCollections (snd (snd (update E n cr vals db))) = definedCollections db"
    "schema (snd (snd (update E n cr vals db))) = schema db"
    by simp_all
qed

lemma perform_defined:
  "definedCollections (perform E db call) =
     (case call of Define n d \<Rightarrow> insert n (definedCollections db) | _ \<Rightarrow> definedCollections db)"
  by (cases call)
     (simp_all add: configure_def define_db_def Let_def drop_db_frame find_db_frame create_frame
        destroy_frame update_frame)

lemma foldl_perform_defined:
  "n \<in> definedCollections (foldl (perform E) db calls) \<longleftrightarrow>
   n \<in> definedCollections db \<or> (\<exists>d. Define n d \<in> set calls)"
proof (induction calls arbitrary: db)
  case Nil
  then show ?case by simp
next
  case (Cons call calls)
  show ?case
    by (cases call) (auto simp: Cons.IH perform_defined simp del: perform.simps)
qed

lemma lifetime_defined:
  "n \<in> definedCollections (lifetime E c calls) \<longleftrightarrow> (\<exists>d. Define n d \<in> set calls)"
  by (simp add: lifetime_def foldl_perform_defined Database_def)

text \<open>
  What \<^verbatim>\<open>describe\<close> answers: the error exactly when the registry holds nothing under
  the lower-cased name; otherwise \<^verbatim>\<open>null\<close> when the description is the empty mapping
  or the read of the table of defined collections is falsy, and the description in
  every other case.
\<close>

lemma describe_result:
  "(describe E cn db = Inl CollectionNotRegistered \<longleftrightarrow>
      retrieve E (schema db) (toLowerCase cn) = None) \<and>
   (\<forall>d. retrieve E (schema db) (toLowerCase cn) = Some d \<longrightarrow>
      describe E cn db = Inr (if d = [] \<or> \<not> isDefined db cn then None else Some d))"
  by (simp add: describe_def Let_def split: option.splits)

text \<open>
  For a name that is no member of \<^verbatim>\<open>Object.prototype\<close>, a process that never called
  \<^verbatim>\<open>define\<close> with this name gets the error or \<^verbatim>\<open>null\<close>, never a description.
\<close>

lemma describe_without_define:
  assumes "cn \<notin> set object_prototype_members" and "\<forall>d. Define cn d \<notin> set calls"
  shows "describe E cn (lifetime E c calls) = Inl CollectionNotRegistered \<or>
         describe E cn (lifetime E c calls) = Inr None"
proof -
  from assms(2) have "cn \<notin> definedCollections (lifetime E c calls)"
    by (simp add: lifetime_defined)
  with assms(1) have "\<not> isDefined (lifetime E c calls) cn"
    by (simp add: isDefined_def)
  then show ?thesis
    by (simp add: describe_def Let_def split: option.splits)
qed

text \<open>
  For a name that is a member of \<^verbatim>\<open>Object.prototype\<close>, \<^verbatim>\<open>describe\<close> gives every
  registered, non-empty description, whether or not \<^verbatim>\<open>define\<close> was called.
\<close>

lemma describe_inherited_name:
  assumes "cn \<in> set object_prototype_members"
    and "retrieve E (schema db) (toLowerCase cn) = Some d" and "d \<noteq> []"
  shows "describe E cn db = Inr (Some d)"
  using assms by (simp add: describe_def Let_def isDefined_def)

text \<open>
  C7. On the instance, in a process that has constructed the database and called
  \<^verbatim>\<open>configure("constructor", d)\<close>, and never \<^verbatim>\<open>define\<close>: no name has been entered in
  the table of defined collections, and \<^verbatim>\<open>describe("constructor")\<close> returns the
  description \<open>d\<close>, not \<^verbatim>\<open>null\<close>. (The read \<^verbatim>\<open>this.definedCollections["constructor"]\<close>
  finds the inherited \<^verbatim>\<open>Object\<close> function.) For the name \<^verbatim>\<open>user\<close> the same
  process gets \<^verbatim>\<open>null\<close>; for a name the registry does not hold, the error.
\<close>

theorem describe_inherited_name_without_define:
  "definedCollections
     (configure (ref_env no_fault) ''constructor'' user_schema
        (Database (ref_env no_fault) \<lparr>kv = [], issued = []\<rparr>)) = {} \<and>
   describe (ref_env no_fault) ''constructor''
     (configure (ref_env no_fault) ''constructor'' user_schema
        (Database (ref_env no_fault) \<lparr>kv = [], issued = []\<rparr>)) = Inr (Some user_schema) \<and>
   describe (ref_env no_fault) ''user''
     (configure (ref_env no_fault) ''user'' user_schema
        (Database (ref_env no_fault) \<lparr>kv = [], issued = []\<rparr>)) = Inr None \<and>
   describe (ref_env no_fault) ''ghost''
     (configure (ref_env no_fault) ''user'' user_schema
        (Database (ref_env no_fault) \<lparr>kv = [], issued = []\<rparr>)) = Inl CollectionNotRegistered"
  by (simp add: describe_def isDefined_def object_prototype_members_def ref_simps)

lemma crud_case_insensitive:
  assumes "toLowerCase m = toLowerCase n"
  shows "find_db E m cr db = find_db E n cr db"
    and "create E m data db = create E n data db"
    and "update E m cr vals db = update E n cr vals db"
    and "drop_db E m rel db = drop_db E n rel db"
  using assms by (simp_all add: find_db_def create_def update_def drop_db_def)

lemma destroy_case_insensitive:
  assumes "toLowerCase m = toLowerCase n"
  shows "destroy E m cr db = destroy E n cr db"
  unfolding destroy_def assms crud_case_insensitive(4) [OF assms] by (rule refl)

lemma configure_case_insensitive:
  "toLowerCase m = toLowerCase n \<Longrightarrow> configure E m d db = configure E n d db"
  by (simp add: configure_def)

lemma describe_other_spelling:
  assumes "m \<noteq> n" and "\<not> isDefined db m"
  shows "describe E m (snd (define_db E n d db)) = Inl CollectionNotRegistered \<or>
         describe E m (snd (define_db E n d db)) = Inr None"
  using assms by (simp add: describe_def define_db_def isDefined_def Let_def split: option.splits)

text \<open>
  C8. The names \<^verbatim>\<open>User\<close> and \<^verbatim>\<open>user\<close> are equal after lower-casing, and the
  registry holds the description under \<^verbatim>\<open>user\<close> after either \<^verbatim>\<open>define\<close>. Yet
  \<^verbatim>\<open>describe("user")\<close> gives \<^verbatim>\<open>null\<close> after \<^verbatim>\<open>define("User", d)\<close> and the
  description \<open>d\<close> after \<^verbatim>\<open>define("user", d)\<close>: the table of defined collections is
  written and read under the name as given. (The other operations depend on the
  lower-cased name only, see \<open>crud_case_insensitive\<close>.)
\<close>

theorem describe_after_define_depends_on_spelling:
  "toLowerCase ''User'' = toLowerCase ''user'' \<and>
   describe (ref_env no_fault) ''user''
     (snd (define_db (ref_env no_fault) ''User'' user_schema
        (Database (ref_env no_fault) \<lparr>kv = [], issued = []\<rparr>))) = Inr None \<and>
   describe (ref_env no_fault) ''user''
     (snd (define_db (ref_env no_fault) ''user'' user_schema
        (Database (ref_env no_fault) \<lparr>kv = [], issued = []\<rparr>))) = Inr (Some user_schema)"
  by (simp add: describe_def define_db_def isDefined_def object_prototype_members_def ref_simps)

section \<open>Creating, then finding\<close>

lemma set_db_kv:
  "set_db E k d c = (None, c1) \<Longrightarrow>
   \<exists>p x. stringify E (JObj d) = Some p \<and> kv c1 = AList.update k (p, x) (kv c) \<and>
         (\<exists>cm. issued c1 = issued c @ [cm])"
  by (auto simp: set_db_def conn_set_def conn_setex_def Let_def split: option.splits if_splits)

lemma create_success:
  assumes "create E cn data db = (Inr created, db1)"
  shows "\<exists>p x r.
           stringify E (JObj data) = Some p \<and>
           kv (connection db1) =
             AList.update
               (sanitize E (recordKey E (schema db) (replaceSpaces E (toLowerCase cn))
                  (primary E (schema db) (toLowerCase cn))
                  (obj_get data (prop_key (primary E (schema db) (toLowerCase cn))))))
               (p, x) (kv (connection db)) \<and>
           json_parse E p = Some r \<and>
           created = parse E (schema db) (replaceSpaces E (toLowerCase cn)) r \<and>
           schema db1 = schema db"
proof -
  let ?k = "sanitize E (recordKey E (schema db) (replaceSpaces E (toLowerCase cn))
              (primary E (schema db) (toLowerCase cn))
              (obj_get data (prop_key (primary E (schema db) (toLowerCase cn)))))"
  obtain e c1 where s: "set_db E ?k data (connection db) = (e, c1)"
    by (cases "set_db E ?k data (connection db)")
  with assms have e: "e = None"
    by (cases e) (simp_all add: create_def Let_def)
  from set_db_kv [OF s [unfolded e]] obtain p x where
    p: "stringify E (JObj data) = Some p" "kv c1 = AList.update ?k (p, x) (kv (connection db))"
    by blast
  from p(2) have look: "map_of (kv c1) ?k = Some (p, x)"
    by (simp add: update_conv')
  from assms s e look have "\<exists>r. json_parse E p = Some r \<and>
      created = parse E (schema db) (replaceSpaces E (toLowerCase cn)) r \<and>
      db1 = db\<lparr>connection := c1\<lparr>issued := issued c1 @ [Get ?k]\<rparr>\<rparr>"
    by (auto simp: create_def Let_def conn_get_eq split: option.splits)
  with p show ?thesis by auto
qed

text \<open>
  When the name has no space to replace and sanitizing leaves the record key as it is,
  \<^verbatim>\<open>find\<close> by the primary key of the created record returns exactly that record.
\<close>

lemma create_then_find_same_key:
  assumes c: "create E cn data db = (Inr created, db1)"
    and shape: "single_key_condition E (prop_key (primary E (schema db) (toLowerCase cn))) cr"
    and val: "where_value cr (prop_key (primary E (schema db) (toLowerCase cn))) =
              obj_get data (prop_key (primary E (schema db) (toLowerCase cn)))"
    and name: "replaceSpaces E (toLowerCase cn) = toLowerCase cn"
    and key: "sanitize E (recordKey E (schema db) (toLowerCase cn)
                 (primary E (schema db) (toLowerCase cn))
                 (obj_get data (prop_key (primary E (schema db) (toLowerCase cn))))) =
              recordKey E (schema db) (toLowerCase cn) (primary E (schema db) (toLowerCase cn))
                 (obj_get data (prop_key (primary E (schema db) (toLowerCase cn))))"
    and ok: "fault E (issued (connection db1))
               (Get (recordKey E (schema db) (toLowerCase cn) (primary E (schema db) (toLowerCase cn))
                 (obj_get data (prop_key (primary E (schema db) (toLowerCase cn)))))) = None"
    and empty: "json_parse E [] = None"
  shows "fst (find_db E cn cr db1) = Inr [created]"
proof -
  from create_success [OF c] name key obtain p x r where
    f: "kv (connection db1) =
          AList.update (recordKey E (schema db) (toLowerCase cn) (primary E (schema db) (toLowerCase cn))
                 (obj_get data (prop_key (primary E (schema db) (toLowerCase cn)))))
            (p, x) (kv (connection db))"
       "json_parse E p = Some r" "created = parse E (schema db) (toLowerCase cn) r"
       "schema db1 = schema db"
    by auto
  from f(2) empty have "p \<noteq> []" by auto
  with f shape val ok show ?thesis
    by (simp add: find_db_def Let_def primaryKeyValue_eq conn_get_eq update_conv')
qed

text \<open>
  When the key under which \<^verbatim>\<open>create\<close> writes differs from the key that \<^verbatim>\<open>find\<close>
  derives, and the store held nothing under the latter, \<^verbatim>\<open>find\<close> returns nothing.
\<close>

lemma create_then_find_other_key:
  assumes c: "create E cn data db = (Inr created, db1)"
    and shape: "single_key_condition E (prop_key (primary E (schema db) (toLowerCase cn))) cr"
    and val: "where_value cr (prop_key (primary E (schema db) (toLowerCase cn))) =
              obj_get data (prop_key (primary E (schema db) (toLowerCase cn)))"
    and key: "sanitize E (recordKey E (schema db) (replaceSpaces E (toLowerCase cn))
                 (primary E (schema db) (toLowerCase cn))
                 (obj_get data (prop_key (primary E (schema db) (toLowerCase cn))))) \<noteq>
              recordKey E (schema db) (toLowerCase cn) (primary E (schema db) (toLowerCase cn))
                 (obj_get data (prop_key (primary E (schema db) (toLowerCase cn))))"
    and fresh: "map_of (kv (connection db))
               (recordKey E (schema db) (toLowerCase cn) (primary E (schema db) (toLowerCase cn))
                 (obj_get data (prop_key (primary E (schema db) (toLowerCase cn))))) = None"
    and ok: "fault E (issued (connection db1))
               (Get (recordKey E (schema db) (toLowerCase cn) (primary E (schema db) (toLowerCase cn))
                 (obj_get data (prop_key (primary E (schema db) (toLowerCase cn)))))) = None"
  shows "fst (find_db E cn cr db1) = Inr []"
proof -
  from create_success [OF c] obtain p x where
    f: "kv (connection db1) =
          AList.update
            (sanitize E (recordKey E (schema db) (replaceSpaces E (toLowerCase cn))
                  (primary E (schema db) (toLowerCase cn))
                  (obj_get data (prop_key (primary E (schema db) (toLowerCase cn))))))
            (p, x) (kv (connection db))"
       "schema db1 = schema db"
    by auto
  with shape val ok key fresh show ?thesis
    by (simp add: find_db_def Let_def primaryKeyValue_eq conn_get_eq update_conv')
qed

lemma create_spaced:
  "create (ref_env no_fault) ''user'' spaced (user_db no_fault []) =
     (Inr spaced,
      (user_db no_fault [])\<lparr>connection :=
         \<lparr>kv = [(''user:id:u1'', (''{\"id\":\"u 1\",\"name\":\"Ann\"}'', None))],
          issued = [Set ''user:id:u1'' ''{\"id\":\"u 1\",\"name\":\"Ann\"}'', Get ''user:id:u1'']\<rparr>\<rparr>)"
  by (simp add: create_def set_db_def conn_set_def conn_get_def ref_simps)

text \<open>
  C1. On the instance, with the collection \<^verbatim>\<open>user\<close> (primary key \<^verbatim>\<open>id\<close>) and an
  empty store: \<^verbatim>\<open>create("user", {id: "u 1", name: "Ann"})\<close> succeeds and returns the
  record, whose primary key is \<^verbatim>\<open>"u 1"\<close>; the record is stored under the sanitized
  key \<^verbatim>\<open>user:id:u1\<close>; \<^verbatim>\<open>find("user", {where: {id: "u 1"}})\<close> then fetches the
  key \<^verbatim>\<open>user:id:u 1\<close>, which is not there, and returns the empty sequence.
\<close>

theorem create_then_find_misses_sanitized_key:
  "fst (create (ref_env no_fault) ''user'' spaced (user_db no_fault [])) = Inr spaced \<and>
   obj_get spaced ''id'' = JStr ''u 1'' \<and>
   map fst (kv (connection (snd (create (ref_env no_fault) ''user'' spaced (user_db no_fault [])))))
     = [''user:id:u1''] \<and>
   fst (find_db (ref_env no_fault) ''user'' \<lparr>whereC = Where [(''id'', JStr ''u 1'')]\<rparr>
          (snd (create (ref_env no_fault) ''user'' spaced (user_db no_fault [])))) = Inr [] \<and>
   issued (connection (snd
     (find_db (ref_env no_fault) ''user'' \<lparr>whereC = Where [(''id'', JStr ''u 1'')]\<rparr>
          (snd (create (ref_env no_fault) ''user'' spaced (user_db no_fault [])))))) =
     [Set ''user:id:u1'' ''{\"id\":\"u 1\",\"name\":\"Ann\"}'', Get ''user:id:u1'',
      Get ''user:id:u 1'']"
  unfolding create_spaced
  by (simp add: find_db_def primaryKeyValue_def conn_get_def ref_simps)

end
